theory Spec2Isabelle
  imports Main
begin

section \<open>Values, errors and promises\<close>

text \<open>
  The transport of \<^verbatim>\<open>ws-transport.ts\<close> and its base class
  (\<^verbatim>\<open>DeviceTransportBase\<close>) are embedded as functions on an explicit state.
  JavaScript numbers are modelled as unbounded integers (retry counters, nonce counts and
  the millisecond clock stay far below \<open>2^53\<close>); \<^verbatim>\<open>console\<close> output is not part of
  the model.
\<close>

text \<open>
  Every \<^verbatim>\<open>new Error(...)\<close> of the source is a constructor:
  \<^item> \<open>TransportAlreadyBusy\<close>: \<^verbatim>\<open>'Transport already busy'\<close> (\<^verbatim>\<open>begin\<close>);
  \<^item> \<open>TransportNotActive\<close>: \<^verbatim>\<open>'Transport is not active'\<close> (\<^verbatim>\<open>end\<close>);
  \<^item> \<open>NoSha256Function\<close>: \<^verbatim>\<open>'No SHA-256 function provided'\<close>;
  \<^item> \<open>NoChallengeFrame\<close>: \<^verbatim>\<open>'No challenge frame available'\<close>;
  \<^item> \<open>WsDisconnected r c\<close>: \<^verbatim>\<open>`WebSocket disconnected after ${r} retries (code=${c})`\<close>.
  The remaining constructors are errors raised by the external RPC runtime:
  \<open>RpcError code message\<close> is an error for which \<^verbatim>\<open>isRpcError\<close> holds, \<open>OtherError\<close>
  any other thrown value, \<open>JsonSyntaxError\<close> what \<^verbatim>\<open>JSON.parse\<close> throws.
\<close>

datatype error =
    TransportAlreadyBusy
  | TransportNotActive
  | NoSha256Function
  | NoChallengeFrame
  | WsDisconnected int int
  | RpcError int string
  | OtherError string
  | JsonSyntaxError

text \<open>The error taxonomy of the specification, as a view on the errors of the code.\<close>

datatype error_kind =
    UsageError
  | ConnectionExhaustedError
  | MissingHashFunctionError
  | MissingChallengeError
  | ExternalError

fun kind :: "error \<Rightarrow> error_kind" where
  "kind TransportAlreadyBusy = UsageError"
| "kind TransportNotActive = UsageError"
| "kind NoSha256Function = MissingHashFunctionError"
| "kind NoChallengeFrame = MissingChallengeError"
| "kind (WsDisconnected r c) = ConnectionExhaustedError"
| "kind (RpcError c m) = ExternalError"
| "kind (OtherError m) = ExternalError"
| "kind JsonSyntaxError = ExternalError"

text \<open>A promise is pending until it is settled, and it is settled once.\<close>

datatype promise = Pending | Resolved | Rejected error

text \<open>
  The result of an \<^verbatim>\<open>async\<close> call, as its caller observes it: the returned promise
  resolves with a value, rejects with an error, or never settles.
\<close>

datatype 'r outcome = Resolves 'r | Rejects error | NeverSettles

text \<open>
  The types of the challenge's \<^verbatim>\<open>nonce\<close> and \<^verbatim>\<open>realm\<close> are declared in the external
  package; a value is a number or a string, and \<^verbatim>\<open>Array.prototype.join\<close> renders it
  with \<^verbatim>\<open>String(...)\<close>.
\<close>

datatype jsval = JNum int | JStr string

text \<open>The decimal digits of a number, as \<^verbatim>\<open>String(n)\<close> writes an integer.\<close>

fun digits :: "nat \<Rightarrow> string" where
  "digits n =
     (if n < 10 then [''0123456789'' ! n]
      else digits (n div 10) @ [''0123456789'' ! (n mod 10)])"

declare digits.simps [simp del]

definition str_of_int :: "int \<Rightarrow> string" where
  "str_of_int i = (if i < 0 then CHR ''-'' # digits (nat (- i)) else digits (nat i))"

fun String :: "jsval \<Rightarrow> string" where
  "String (JNum i) = str_of_int i"
| "String (JStr s) = s"

fun join :: "string \<Rightarrow> string list \<Rightarrow> string" where
  "join sep [] = []"
| "join sep [x] = x"
| "join sep (x # y # ys) = x @ sep @ join sep (y # ys)"

section \<open>The state of a transport\<close>

text \<open>\<^verbatim>\<open>_authFrame\<close>: the captured challenge.\<close>

record auth_frame =
  nonce :: jsval
  realm :: jsval
  nc :: int

text \<open>
  The object \<^verbatim>\<open>_regenerateAuthFrames\<close> returns: the challenge's fields, then
  \<^verbatim>\<open>cnonce\<close> and \<^verbatim>\<open>response\<close>, \<^verbatim>\<open>username\<close> and \<^verbatim>\<open>algorithm\<close>.
\<close>

record auth_request = auth_frame +
  cnonce :: int
  response :: string
  username :: string
  algorithm :: string

text \<open>The options handed to the runtime's \<^verbatim>\<open>rpcRequest\<close>: the caller's, and \<^verbatim>\<open>auth\<close>.\<close>

record 'o rpc_options =
  auth :: "auth_request option"
  caller_options :: "'o option"

datatype timer_status = Scheduled | Cleared | Fired

text \<open>
  The fields of \<^verbatim>\<open>DeviceTransportBase\<close> and \<^verbatim>\<open>DeviceWsInTransport\<close>, then the part of
  the JavaScript runtime they act on:
  \<^item> \<open>promises\<close>: the promises created so far; a handle is an index;
  \<^item> \<open>sockets\<close>: the sockets created by \<^verbatim>\<open>connect\<close>, each with its URL and the promise
    whose \<^verbatim>\<open>resolve\<close> and \<^verbatim>\<open>reject\<close> its handlers close over;
  \<^item> \<open>closed\<close>: the sockets on which \<^verbatim>\<open>close()\<close> was called;
  \<^item> \<open>timers\<close>: the timeouts set, each with its delay, the promise of the \<^verbatim>\<open>connect\<close>
    closure it calls, and its status;
  \<^item> \<open>module_cnonce\<close>: the module-level variable \<^verbatim>\<open>cnonce\<close>.
\<close>

record transport =
  isBusy :: bool
  beginPromise :: "nat option"
  host :: string
  ws :: "nat option"
  forceDisconnect :: bool
  retries :: int
  maxRetries :: int
  reconnectTimeout :: "nat option"
  isReconnecting :: bool
  authFrame :: "auth_frame option"
  userShaToken :: string
  sha256Func :: "(string \<Rightarrow> string) option"
  promises :: "promise list"
  sockets :: "(string \<times> nat) list"
  closed :: "nat list"
  timers :: "(int \<times> nat \<times> timer_status) list"
  module_cnonce :: "int option"

definition WS_RETRY_BASE_DELAY :: int where
  "WS_RETRY_BASE_DELAY = 500"

definition RECONNECT_RETRIES_INFINITE :: int where
  "RECONNECT_RETRIES_INFINITE = - 1"

definition DEFAULT_RECONNECT_RETRIES :: int where
  "DEFAULT_RECONNECT_RETRIES = 5"

text \<open>
  The constructor, for a host, a hash function (or \<^verbatim>\<open>null\<close>) and the optional
  \<^verbatim>\<open>maxRetries\<close>; the client identifier goes to the external base class only.
  \<^verbatim>\<open>options?.maxRetries || DEFAULT_RECONNECT_RETRIES\<close>: a missing value and the falsy
  number 0 both give the default.
\<close>

definition DeviceWsInTransport ::
  "string \<Rightarrow> (string \<Rightarrow> string) option \<Rightarrow> int option \<Rightarrow> transport" where
  "DeviceWsInTransport h f opt_maxRetries =
     \<lparr> isBusy = False, beginPromise = None, host = h, ws = None,
       forceDisconnect = False, retries = 0,
       maxRetries =
         (case opt_maxRetries of
            None \<Rightarrow> DEFAULT_RECONNECT_RETRIES
          | Some m \<Rightarrow> if m = 0 then DEFAULT_RECONNECT_RETRIES else m),
       reconnectTimeout = None, isReconnecting = False, authFrame = None,
       userShaToken = [], sha256Func = f,
       promises = [], sockets = [], closed = [], timers = [], module_cnonce = None \<rparr>"

section \<open>The connection manager\<close>

text \<open>\<^verbatim>\<open>`${this.host.replace(/\/$/, '')}/rpc`\<close>\<close>

definition rpc_url :: "string \<Rightarrow> string" where
  "rpc_url h =
     (if h \<noteq> [] \<and> last h = CHR ''/'' then butlast h else h) @ ''/rpc''"

text \<open>Settling a promise: \<^verbatim>\<open>resolve\<close> and \<^verbatim>\<open>reject\<close> act on a pending promise only.\<close>

definition settle :: "nat \<Rightarrow> promise \<Rightarrow> promise list \<Rightarrow> promise list" where
  "settle p v ps = (if p < length ps \<and> ps ! p = Pending then ps[p := v] else ps)"

definition clearTimeout :: "nat \<Rightarrow> (int \<times> nat \<times> timer_status) list
    \<Rightarrow> (int \<times> nat \<times> timer_status) list" where
  "clearTimeout t ts =
     (if t < length ts \<and> snd (snd (ts ! t)) = Scheduled
      then ts[t := (fst (ts ! t), fst (snd (ts ! t)), Cleared)] else ts)"

text \<open>
  \<^verbatim>\<open>connect\<close>, for the promise \<open>p\<close> of the enclosing \<^verbatim>\<open>_onBegin\<close>: a new socket, whose
  handlers are \<open>ws_onopen p\<close>, \<open>ws_onclose p\<close> below. The host is a \<^verbatim>\<open>ws://\<close> or
  \<^verbatim>\<open>wss://\<close> address by its type, so \<^verbatim>\<open>new WebSocket\<close> is taken to return a socket.
\<close>

definition connect :: "nat \<Rightarrow> transport \<Rightarrow> transport" where
  "connect p s =
     s\<lparr> ws := Some (length (sockets s)),
        sockets := sockets s @ [(rpc_url (host s), p)],
        forceDisconnect := False,
        isReconnecting := False \<rparr>"

definition ws_onopen :: "nat \<Rightarrow> transport \<Rightarrow> transport" where
  "ws_onopen p s =
     (let s1 = s\<lparr> retries := 0, isReconnecting := False \<rparr>;
          s2 = (case reconnectTimeout s1 of
                  Some t \<Rightarrow> s1\<lparr> timers := clearTimeout t (timers s1),
                                reconnectTimeout := None \<rparr>
                | None \<Rightarrow> s1)
      in s2\<lparr> promises := settle p Resolved (promises s2) \<rparr>)"

definition reconnect_delay :: "int \<Rightarrow> int" where
  "reconnect_delay r = WS_RETRY_BASE_DELAY * max r DEFAULT_RECONNECT_RETRIES"

definition ws_onclose :: "nat \<Rightarrow> int \<Rightarrow> transport \<Rightarrow> transport" where
  "ws_onclose p code s =
     (if forceDisconnect s then s
      else if isReconnecting s then s
      else if retries s < maxRetries s \<or> maxRetries s = RECONNECT_RETRIES_INFINITE
      then
        (let s1 = s\<lparr> retries := retries s + 1, isReconnecting := True \<rparr>;
             timeout = reconnect_delay (retries s1)
         in s1\<lparr> reconnectTimeout := Some (length (timers s1)),
                 timers := timers s1 @ [(timeout, p, Scheduled)] \<rparr>)
      else s\<lparr> promises := settle p (Rejected (WsDisconnected (retries s) code))
                             (promises s) \<rparr>)"

text \<open>The callback of the timeout \<open>t\<close>, run by the runtime unless the timeout was cleared.\<close>

definition timer_fire :: "nat \<Rightarrow> transport \<Rightarrow> transport" where
  "timer_fire t s =
     (if t < length (timers s) \<and> snd (snd (timers s ! t)) = Scheduled
      then
        connect (fst (snd (timers s ! t)))
          (s\<lparr> timers := (timers s)[t := (fst (timers s ! t), fst (snd (timers s ! t)), Fired)],
              reconnectTimeout := None \<rparr>)
      else s)"

text \<open>The pending reconnect timeout, if there is one, expires.\<close>

definition fire_pending :: "transport \<Rightarrow> transport" where
  "fire_pending s = (case reconnectTimeout s of Some t \<Rightarrow> timer_fire t s | None \<Rightarrow> s)"

definition onBegin :: "transport \<Rightarrow> nat \<times> transport" where
  "onBegin s =
     (let p = length (promises s)
      in (p, connect p (s\<lparr> promises := promises s @ [Pending] \<rparr>)))"

definition onEnd :: "transport \<Rightarrow> nat \<times> transport" where
  "onEnd s =
     (let s1 = s\<lparr> forceDisconnect := True, isReconnecting := False \<rparr>;
          s2 = (case reconnectTimeout s1 of
                  Some t \<Rightarrow> s1\<lparr> timers := clearTimeout t (timers s1),
                                reconnectTimeout := None \<rparr>
                | None \<Rightarrow> s1);
          s3 = (case ws s2 of
                  Some k \<Rightarrow> s2\<lparr> closed := closed s2 @ [k] \<rparr>
                | None \<Rightarrow> s2);
          s4 = s3\<lparr> ws := None, retries := 0 \<rparr>
      in (length (promises s4), s4\<lparr> promises := promises s4 @ [Resolved] \<rparr>))"

section \<open>The lifecycle controller\<close>

text \<open>
  \<^verbatim>\<open>begin\<close> and \<^verbatim>\<open>end\<close> of \<^verbatim>\<open>DeviceTransportBase\<close>. A thrown error is \<open>Inl\<close>, a
  returned promise is \<open>Inr\<close> of its handle.
\<close>

definition transport_begin :: "transport \<Rightarrow> (error + nat) \<times> transport" where
  "transport_begin s =
     (case beginPromise s of
        Some p \<Rightarrow> (Inr p, s)
      | None \<Rightarrow>
          if isBusy s then (Inl TransportAlreadyBusy, s)
          else
            (let (p, s1) = onBegin (s\<lparr> isBusy := True \<rparr>)
             in (Inr p, s1\<lparr> beginPromise := Some p \<rparr>)))"

definition transport_end :: "transport \<Rightarrow> (error + nat) \<times> transport" where
  "transport_end s =
     (if \<not> isBusy s then (Inl TransportNotActive, s)
      else
        (let (p, s1) = onEnd (s\<lparr> isBusy := False, beginPromise := None \<rparr>)
         in (Inr p, s1)))"

text \<open>\<open>n\<close> calls of \<^verbatim>\<open>begin\<close> in a row, with what each caller receives.\<close>

fun begin_calls :: "nat \<Rightarrow> transport \<Rightarrow> (error + nat) list \<times> transport" where
  "begin_calls 0 s = ([], s)"
| "begin_calls (Suc n) s =
     (let (r, s1) = transport_begin s; (rs, s2) = begin_calls n s1 in (r # rs, s2))"

section \<open>The authentication handler\<close>

text \<open>
  \<^verbatim>\<open>prepareAuthPartialFrame\<close>, on the module-level \<^verbatim>\<open>cnonce\<close>; \<open>now\<close> is what
  \<^verbatim>\<open>Date.now()\<close> returns. \<^verbatim>\<open>!cnonce\<close> holds for \<^verbatim>\<open>null\<close> and for 0, so
  \<open>client_nonce\<close> is the variable after \<^verbatim>\<open>if (!cnonce) cnonce = Date.now()\<close>. The hash
  function is a parameter; \<^verbatim>\<open>await Promise.resolve(...)\<close> gives its value whether it is
  synchronous or not.
\<close>

definition client_nonce :: "int \<Rightarrow> int option \<Rightarrow> int" where
  "client_nonce now cn = (case cn of None \<Rightarrow> now | Some c \<Rightarrow> if c = 0 then now else c)"

definition prepareAuthPartialFrame ::
  "int \<Rightarrow> (string \<Rightarrow> string) \<Rightarrow> string \<Rightarrow> jsval \<Rightarrow> int \<Rightarrow> int option
    \<Rightarrow> (int \<times> string) \<times> int option" where
  "prepareAuthPartialFrame now sha256 shaUserToken nonce_v nc_v cn =
     (let cn1 = client_nonce now cn;
          parts = [shaUserToken, String nonce_v, str_of_int nc_v, str_of_int cn1,
                   ''auth'', sha256 ''dummy_method:dummy_uri''];
          resp = sha256 (join '':'' parts)
      in ((cn1, resp), Some cn1))"

definition authenticate :: "string \<Rightarrow> string \<Rightarrow> transport \<Rightarrow> unit outcome \<times> transport" where
  "authenticate dev_id password s =
     (case sha256Func s of
        None \<Rightarrow> (Rejects NoSha256Function, s)
      | Some sha256 \<Rightarrow>
          (case authFrame s of
             None \<Rightarrow> (Rejects NoChallengeFrame, s)
           | Some af \<Rightarrow>
               (Resolves (),
                s\<lparr> userShaToken := sha256 (join '':'' [''admin'', dev_id, password]) \<rparr>)))"

definition regenerateAuthFrames ::
  "int \<Rightarrow> int \<Rightarrow> transport \<Rightarrow> (error + auth_request) \<times> transport" where
  "regenerateAuthFrames now nc_v s =
     (case sha256Func s of
        None \<Rightarrow> (Inl NoSha256Function, s)
      | Some sha256 \<Rightarrow>
          (case authFrame s of
             None \<Rightarrow> (Inl NoChallengeFrame, s)
           | Some af \<Rightarrow>
               (let ((cn, resp), g) =
                      prepareAuthPartialFrame now sha256 (userShaToken s) (nonce af) nc_v
                        (module_cnonce s)
                in (Inr \<lparr> nonce = nonce af, realm = realm af, nc = nc_v,
                          cnonce = cn, response = resp,
                          username = ''admin'', algorithm = ''SHA-256'' \<rparr>,
                    s\<lparr> module_cnonce := g \<rparr>))))"

section \<open>The request interceptor\<close>

text \<open>
  What \<^verbatim>\<open>JSON.parse(error.message)\<close> and \<^verbatim>\<open>isRpcAuthResponse\<close> make of the message
  of a 401 error: \<^verbatim>\<open>JSON.parse\<close> throws, or the value is no auth response, or it is one
  with the fields \<^verbatim>\<open>nonce\<close>, \<^verbatim>\<open>realm\<close>, \<^verbatim>\<open>nc\<close>.
\<close>

datatype decoded = Unparsable | NotAuthResponse | AuthResponse auth_frame

text \<open>
  The first block of \<^verbatim>\<open>rpcRequest\<close>, \<^verbatim>\<open>if (this._authFrame) { ... }\<close>: the
  stored count is read and incremented, and the auth block is made for the count that was
  read. \<open>Inl\<close> is the error \<^verbatim>\<open>_regenerateAuthFrames\<close> throws, \<open>Inr\<close> the value of
  \<^verbatim>\<open>options.auth\<close> after the block.
\<close>

definition attach_auth :: "int \<Rightarrow> transport \<Rightarrow> (error + auth_request option) \<times> transport" where
  "attach_auth now s =
     (case authFrame s of
        None \<Rightarrow> (Inr None, s)
      | Some af \<Rightarrow>
          (let nc_v = nc af;
               s0 = s\<lparr> authFrame := Some (af\<lparr> nc := nc af + 1 \<rparr>) \<rparr>
           in case regenerateAuthFrames now nc_v s0 of
                (Inl e, s') \<Rightarrow> (Inl e, s')
              | (Inr blk, s') \<Rightarrow> (Inr (Some blk), s')))"

text \<open>
  \<^verbatim>\<open>rpcRequest\<close>. The external runtime is a parameter: \<open>super_rpcRequest\<close> tells how
  the inherited \<^verbatim>\<open>rpcRequest\<close> ends for a method, its parameters and the options it is
  given, \<open>decode\<close> is \<^verbatim>\<open>JSON.parse\<close> followed by \<^verbatim>\<open>isRpcAuthResponse\<close>. The
  result is the outcome for the caller, with the options passed to the inherited
  \<^verbatim>\<open>rpcRequest\<close> when it was called. \<open>caller_options = None\<close> stands for the empty
  object that replaces missing options.
\<close>

definition rpcRequest ::
  "int \<Rightarrow> (string \<Rightarrow> 'p \<Rightarrow> 'o rpc_options \<Rightarrow> 'r outcome) \<Rightarrow> (string \<Rightarrow> decoded)
    \<Rightarrow> string \<Rightarrow> 'p \<Rightarrow> 'o option \<Rightarrow> transport
    \<Rightarrow> ('r outcome \<times> 'o rpc_options option) \<times> transport" where
  "rpcRequest now super_rpcRequest decode method params options s =
     (case attach_auth now s of
        (Inl e, s1) \<Rightarrow> ((Rejects e, None), s1)
      | (Inr au, s1) \<Rightarrow>
          (let opts = \<lparr> auth = au, caller_options = options \<rparr>
           in case super_rpcRequest method params opts of
                Resolves r \<Rightarrow> ((Resolves r, Some opts), s1)
              | NeverSettles \<Rightarrow> ((NeverSettles, Some opts), s1)
              | Rejects e \<Rightarrow>
                  (case e of
                     RpcError code msg \<Rightarrow>
                       if code = 401 then
                         (case decode msg of
                            Unparsable \<Rightarrow> ((Rejects JsonSyntaxError, Some opts), s1)
                          | NotAuthResponse \<Rightarrow> ((NeverSettles, Some opts), s1)
                          | AuthResponse r \<Rightarrow>
                              ((NeverSettles, Some opts),
                               s1\<lparr> authFrame :=
                                     Some \<lparr> nonce = nonce r, realm = realm r, nc = nc r \<rparr> \<rparr>))
                       else ((Rejects e, Some opts), s1)
                   | _ \<Rightarrow> ((Rejects e, Some opts), s1))))"

section \<open>Everything that can happen to a transport\<close>

text \<open>
  The calls of the public methods and the events the runtime delivers: the events of a
  socket (by its index in \<open>sockets\<close>) and the expiry of a timeout. \<^verbatim>\<open>onerror\<close> logs;
  \<^verbatim>\<open>onmessage\<close> hands the frame to the external runtime; neither touches a field.
\<close>

datatype ('p, 'o, 'r) action =
    Begin
  | End
  | SocketOpen nat
  | SocketError nat
  | SocketMessage nat
  | SocketClose nat int
  | TimerFire nat
  | Authenticate string string
  | RpcRequest int "string \<Rightarrow> 'p \<Rightarrow> 'o rpc_options \<Rightarrow> 'r outcome" "string \<Rightarrow> decoded"
      string 'p "'o option"

fun step :: "('p, 'o, 'r) action \<Rightarrow> transport \<Rightarrow> transport" where
  "step Begin s = snd (transport_begin s)"
| "step End s = snd (transport_end s)"
| "step (SocketOpen k) s =
     (if k < length (sockets s) then ws_onopen (snd (sockets s ! k)) s else s)"
| "step (SocketError k) s = s"
| "step (SocketMessage k) s = s"
| "step (SocketClose k code) s =
     (if k < length (sockets s) then ws_onclose (snd (sockets s ! k)) code s else s)"
| "step (TimerFire t) s = timer_fire t s"
| "step (Authenticate dev_id password) s = snd (authenticate dev_id password s)"
| "step (RpcRequest now super_rpcRequest decode method params options) s =
     snd (rpcRequest now super_rpcRequest decode method params options s)"

fun run :: "('p, 'o, 'r) action list \<Rightarrow> transport \<Rightarrow> transport" where
  "run [] s = s"
| "run (a # as) s = run as (step a s)"

text \<open>
  An invariant of the lifecycle fields: a start handle is stored exactly while the
  transport is busy, and it is a promise that exists.
\<close>

definition lifecycle_ok :: "transport \<Rightarrow> bool" where
  "lifecycle_ok s =
     (case beginPromise s of None \<Rightarrow> \<not> isBusy s | Some p \<Rightarrow> isBusy s \<and> p < length (promises s))"

section \<open>Deduplication of \<^verbatim>\<open>begin\<close>\<close>

lemma begin_stored: "beginPromise s = Some p \<Longrightarrow> transport_begin s = (Inr p, s)"
  by (simp add: transport_begin_def)

lemma begin_calls_stored:
  "beginPromise s = Some p \<Longrightarrow> begin_calls n s = (replicate n (Inr p), s)"
  by (induction n) (simp_all add: begin_stored)

lemma begin_fresh:
  "beginPromise s = None \<Longrightarrow> \<not> isBusy s \<Longrightarrow>
   transport_begin s =
     (Inr (length (promises s)),
      s\<lparr> isBusy := True, beginPromise := Some (length (promises s)),
         ws := Some (length (sockets s)),
         sockets := sockets s @ [(rpc_url (host s), length (promises s))],
         forceDisconnect := False, isReconnecting := False,
         promises := promises s @ [Pending] \<rparr>)"
  by (simp add: transport_begin_def onBegin_def connect_def Let_def)

text \<open>
  Claim C1. While a start handle is stored (\<^verbatim>\<open>end\<close> has not been called), any number of
  \<^verbatim>\<open>begin\<close> calls return that handle and leave the state as it is. From an idle
  transport, any number of \<^verbatim>\<open>begin\<close> calls return one and the same handle, the state
  after them is the state after the first, exactly one socket has been created, and the
  handle is the pending promise of that one attempt.
\<close>

theorem begin_dedup:
  "(beginPromise s = Some p \<longrightarrow> begin_calls n s = (replicate n (Inr p), s)) \<and>
   (beginPromise s = None \<and> \<not> isBusy s \<longrightarrow>
      fst (begin_calls (Suc n) s) = replicate (Suc n) (Inr (length (promises s))) \<and>
      snd (begin_calls (Suc n) s) = snd (transport_begin s) \<and>
      length (sockets (snd (begin_calls (Suc n) s))) = Suc (length (sockets s)) \<and>
      promises (snd (begin_calls (Suc n) s)) ! length (promises s) = Pending)"
proof (intro conjI impI)
  assume "beginPromise s = Some p"
  then show "begin_calls n s = (replicate n (Inr p), s)" by (rule begin_calls_stored)
next
  assume a: "beginPromise s = None \<and> \<not> isBusy s"
  let ?p = "length (promises s)"
  obtain s1 where s1: "transport_begin s = (Inr ?p, s1)" and bp: "beginPromise s1 = Some ?p"
    and so: "sockets s1 = sockets s @ [(rpc_url (host s), ?p)]"
    and pr: "promises s1 = promises s @ [Pending]"
    using a by (simp add: begin_fresh)
  have calls: "begin_calls (Suc n) s = (Inr ?p # replicate n (Inr ?p), s1)"
    by (simp add: s1 begin_calls_stored [OF bp])
  show "fst (begin_calls (Suc n) s) = replicate (Suc n) (Inr ?p)" unfolding calls by simp
  show "snd (begin_calls (Suc n) s) = snd (transport_begin s)" unfolding calls s1 by simp
  show "length (sockets (snd (begin_calls (Suc n) s))) = Suc (length (sockets s))"
    unfolding calls by (simp add: so)
  show "promises (snd (begin_calls (Suc n) s)) ! ?p = Pending" unfolding calls by (simp add: pr)
qed

theorem begin_dedup_witness:
  "fst (begin_calls (Suc 2) (DeviceWsInTransport ''ws://dev'' None None)) = [Inr 0, Inr 0, Inr 0] \<and>
   length (sockets (snd (begin_calls (Suc 2) (DeviceWsInTransport ''ws://dev'' None None)))) = 1 \<and>
   begin_calls 2 (snd (transport_begin (DeviceWsInTransport ''ws://dev'' None None)))
     = ([Inr 0, Inr 0], snd (transport_begin (DeviceWsInTransport ''ws://dev'' None None)))"
proof -
  let ?s = "DeviceWsInTransport ''ws://dev'' None None"
  have h: "beginPromise ?s = None \<and> \<not> isBusy ?s" by (simp add: DeviceWsInTransport_def)
  have h2: "beginPromise (snd (transport_begin ?s)) = Some 0"
    by (simp add: begin_fresh DeviceWsInTransport_def)
  from begin_dedup [of ?s 0 2] h have
    "fst (begin_calls (Suc 2) ?s) = replicate (Suc 2) (Inr (length (promises ?s)))"
    "length (sockets (snd (begin_calls (Suc 2) ?s))) = Suc (length (sockets ?s))"
    by blast+
  moreover from begin_dedup [of "snd (transport_begin ?s)" 0 2] h2 have
    "begin_calls 2 (snd (transport_begin ?s)) = (replicate 2 (Inr 0), snd (transport_begin ?s))"
    by blast
  ultimately show ?thesis
    by (simp add: DeviceWsInTransport_def numeral_2_eq_2)
qed

section \<open>\<^verbatim>\<open>end\<close> and the busy flag\<close>

lemma end_idle: "\<not> isBusy s \<Longrightarrow> transport_end s = (Inl TransportNotActive, s)"
  by (simp add: transport_end_def)

lemma end_busy:
  "isBusy s \<Longrightarrow>
   fst (transport_end s) = Inr (length (promises s)) \<and>
   promises (snd (transport_end s)) = promises s @ [Resolved] \<and>
   \<not> isBusy (snd (transport_end s)) \<and>
   beginPromise (snd (transport_end s)) = None \<and>
   sockets (snd (transport_end s)) = sockets s"
  by (simp add: transport_end_def onEnd_def Let_def split: option.splits)

text \<open>
  Claim C2, as stated, at a concrete transport: after \<^verbatim>\<open>begin\<close> the first \<^verbatim>\<open>end\<close>
  returns a promise, and a second \<^verbatim>\<open>end\<close> right after it throws
  \<^verbatim>\<open>'Transport is not active'\<close> instead of completing.
\<close>

theorem end_twice_counterexample:
  "isBusy (snd (transport_begin (DeviceWsInTransport ''ws://dev'' None None))) \<and>
   fst (transport_end (snd (transport_begin (DeviceWsInTransport ''ws://dev'' None None)))) = Inr 1 \<and>
   fst (transport_end (snd (transport_end (snd (transport_begin
          (DeviceWsInTransport ''ws://dev'' None None)))))) = Inl TransportNotActive"
  by (simp add: DeviceWsInTransport_def transport_begin_def transport_end_def onBegin_def
      onEnd_def connect_def Let_def)

text \<open>
  Claim C2, amended. \<^verbatim>\<open>end\<close> on a transport that is not busy throws a usage error and
  changes nothing. On a busy transport it returns a resolved promise, clears the busy flag
  and discards the start handle; a second \<^verbatim>\<open>end\<close> with no \<^verbatim>\<open>begin\<close> in between
  then throws the usage error.
\<close>

theorem end_lifecycle:
  "(\<not> isBusy s \<longrightarrow>
      transport_end s = (Inl TransportNotActive, s) \<and> kind TransportNotActive = UsageError) \<and>
   (isBusy s \<longrightarrow>
      fst (transport_end s) = Inr (length (promises s)) \<and>
      promises (snd (transport_end s)) ! length (promises s) = Resolved \<and>
      \<not> isBusy (snd (transport_end s)) \<and>
      beginPromise (snd (transport_end s)) = None \<and>
      transport_end (snd (transport_end s)) = (Inl TransportNotActive, snd (transport_end s)))"
proof (intro conjI impI)
  assume "\<not> isBusy s"
  then show "transport_end s = (Inl TransportNotActive, s)" by (rule end_idle)
next
  show "kind TransportNotActive = UsageError" by simp
next
  assume b: "isBusy s"
  note e = end_busy [OF b]
  show "fst (transport_end s) = Inr (length (promises s))" using e by simp
  show "promises (snd (transport_end s)) ! length (promises s) = Resolved" using e by simp
  show "\<not> isBusy (snd (transport_end s))" using e by simp
  then show "transport_end (snd (transport_end s)) = (Inl TransportNotActive, snd (transport_end s))"
    by (rule end_idle)
  show "beginPromise (snd (transport_end s)) = None" using e by simp
qed

theorem end_lifecycle_witness:
  "transport_end (DeviceWsInTransport ''ws://dev'' None None)
     = (Inl TransportNotActive, DeviceWsInTransport ''ws://dev'' None None) \<and>
   fst (transport_end (snd (transport_begin (DeviceWsInTransport ''ws://dev'' None None)))) = Inr 1 \<and>
   fst (transport_end (snd (transport_end (snd (transport_begin
          (DeviceWsInTransport ''ws://dev'' None None)))))) = Inl TransportNotActive"
proof -
  let ?s = "DeviceWsInTransport ''ws://dev'' None None"
  let ?b = "snd (transport_begin ?s)"
  have i: "\<not> isBusy ?s" by (simp add: DeviceWsInTransport_def)
  have b: "isBusy ?b"
    by (simp add: DeviceWsInTransport_def transport_begin_def onBegin_def connect_def)
  have l: "length (promises ?b) = 1"
    by (simp add: DeviceWsInTransport_def transport_begin_def onBegin_def connect_def)
  from end_lifecycle [of ?s] i have "transport_end ?s = (Inl TransportNotActive, ?s)" by blast
  moreover from end_lifecycle [of ?b] b l have "fst (transport_end ?b) = Inr 1"
    "transport_end (snd (transport_end ?b)) = (Inl TransportNotActive, snd (transport_end ?b))"
    by auto
  ultimately show ?thesis by simp
qed

section \<open>The retry budget\<close>

lemma onclose_retry:
  "\<not> forceDisconnect s \<Longrightarrow> \<not> isReconnecting s \<Longrightarrow>
   retries s < maxRetries s \<or> maxRetries s = RECONNECT_RETRIES_INFINITE \<Longrightarrow>
   ws_onclose p c s =
     s\<lparr> retries := retries s + 1, isReconnecting := True,
        reconnectTimeout := Some (length (timers s)),
        timers := timers s @ [(reconnect_delay (retries s + 1), p, Scheduled)] \<rparr>"
  by (simp add: ws_onclose_def Let_def)

lemma onclose_exhausted:
  "\<not> forceDisconnect s \<Longrightarrow> \<not> isReconnecting s \<Longrightarrow>
   \<not> retries s < maxRetries s \<Longrightarrow> maxRetries s \<noteq> RECONNECT_RETRIES_INFINITE \<Longrightarrow>
   ws_onclose p c s =
     s\<lparr> promises := settle p (Rejected (WsDisconnected (retries s) c)) (promises s) \<rparr>"
  by (simp add: ws_onclose_def)

text \<open>
  Claim C9. The constructor turns \<^verbatim>\<open>maxRetries = 0\<close> (and a missing value) into the
  default 5, keeps every other value, and so keeps \<open>-1\<close>, the value for unlimited retries:
  with it an unexpected close always counts a retry and schedules a reconnect, and never
  rejects the start promise.
\<close>

theorem constructor_maxRetries:
  "maxRetries (DeviceWsInTransport h f (Some 0)) = 5 \<and>
   maxRetries (DeviceWsInTransport h f None) = 5 \<and>
   (m \<noteq> 0 \<longrightarrow> maxRetries (DeviceWsInTransport h f (Some m)) = m) \<and>
   maxRetries (DeviceWsInTransport h f (Some (- 1))) = RECONNECT_RETRIES_INFINITE \<and>
   (maxRetries s = RECONNECT_RETRIES_INFINITE \<and> \<not> forceDisconnect s \<and> \<not> isReconnecting s \<longrightarrow>
      retries (ws_onclose p c s) = retries s + 1 \<and>
      reconnectTimeout (ws_onclose p c s) = Some (length (timers s)) \<and>
      promises (ws_onclose p c s) = promises s)"
  by (simp add: DeviceWsInTransport_def DEFAULT_RECONNECT_RETRIES_def
      RECONNECT_RETRIES_INFINITE_def onclose_retry)

theorem constructor_maxRetries_witness:
  "maxRetries (DeviceWsInTransport ''ws://dev'' None (Some 0)) = 5 \<and>
   maxRetries (DeviceWsInTransport ''ws://dev'' None (Some 7)) = 7 \<and>
   retries (ws_onclose 0 1006
      ((DeviceWsInTransport ''ws://dev'' None (Some (- 1)))\<lparr> retries := 100 \<rparr>)) = 101"
proof -
  let ?s = "(DeviceWsInTransport ''ws://dev'' None (Some (- 1)))\<lparr> retries := 100 \<rparr>"
  have h: "maxRetries ?s = RECONNECT_RETRIES_INFINITE \<and> \<not> forceDisconnect ?s \<and> \<not> isReconnecting ?s"
    by (simp add: DeviceWsInTransport_def RECONNECT_RETRIES_INFINITE_def)
  have "retries (ws_onclose 0 1006 ?s) = retries ?s + 1"
    using constructor_maxRetries [of "''ws://dev''" None 7 ?s 0 1006] h by blast
  moreover have "maxRetries (DeviceWsInTransport ''ws://dev'' None (Some 0)) = 5"
    "maxRetries (DeviceWsInTransport ''ws://dev'' None (Some 7)) = 7"
    using constructor_maxRetries [of "''ws://dev''" None 7 ?s 0 1006] by simp_all
  ultimately show ?thesis by simp
qed

section \<open>Reconnecting after an unexpected close\<close>

lemma reconnect_delay_low: "r \<le> 5 \<Longrightarrow> reconnect_delay r = 2500"
  by (simp add: reconnect_delay_def WS_RETRY_BASE_DELAY_def DEFAULT_RECONNECT_RETRIES_def max_def)

lemma reconnect_delay_high: "5 \<le> r \<Longrightarrow> reconnect_delay r = 500 * r"
  by (simp add: reconnect_delay_def WS_RETRY_BASE_DELAY_def DEFAULT_RECONNECT_RETRIES_def max_def)

text \<open>
  Claim C7. A close that is neither forced nor ignored, with retries left (or unlimited),
  counts the retry and sets one timeout, whose delay is 500 times the maximum of the new
  retry number and 5: 2500 for the retries 1 to 5, then 3000, 3500 and 4000 for the
  retries 6, 7 and 8.
\<close>

theorem reconnect_delay_schedule:
  "(\<not> forceDisconnect s \<and> \<not> isReconnecting s \<and>
      (retries s < maxRetries s \<or> maxRetries s = RECONNECT_RETRIES_INFINITE) \<longrightarrow>
      retries (ws_onclose p c s) = retries s + 1 \<and>
      reconnectTimeout (ws_onclose p c s) = Some (length (timers s)) \<and>
      timers (ws_onclose p c s) =
        timers s @ [(500 * max (retries (ws_onclose p c s)) 5, p, Scheduled)]) \<and>
   (1 \<le> r \<and> r \<le> 5 \<longrightarrow> reconnect_delay r = 2500) \<and>
   reconnect_delay 6 = 3000 \<and> reconnect_delay 7 = 3500 \<and> reconnect_delay 8 = 4000"
proof (intro conjI impI)
  assume a: "\<not> forceDisconnect s \<and> \<not> isReconnecting s \<and>
      (retries s < maxRetries s \<or> maxRetries s = RECONNECT_RETRIES_INFINITE)"
  then have eq: "ws_onclose p c s =
     s\<lparr> retries := retries s + 1, isReconnecting := True,
        reconnectTimeout := Some (length (timers s)),
        timers := timers s @ [(reconnect_delay (retries s + 1), p, Scheduled)] \<rparr>"
    by (simp add: onclose_retry)
  show "retries (ws_onclose p c s) = retries s + 1" by (simp add: eq)
  show "reconnectTimeout (ws_onclose p c s) = Some (length (timers s))" by (simp add: eq)
  show "timers (ws_onclose p c s) =
        timers s @ [(500 * max (retries (ws_onclose p c s)) 5, p, Scheduled)]"
    by (simp add: eq reconnect_delay_def WS_RETRY_BASE_DELAY_def DEFAULT_RECONNECT_RETRIES_def)
next
  assume "1 \<le> r \<and> r \<le> 5"
  then show "reconnect_delay r = 2500" by (simp add: reconnect_delay_low)
qed (simp_all add: reconnect_delay_high)

theorem reconnect_delay_schedule_witness:
  "timers (ws_onclose 0 1006 (snd (transport_begin (DeviceWsInTransport ''ws://dev'' None None))))
     = [(2500, 0, Scheduled)] \<and>
   reconnect_delay 3 = 2500"
proof -
  let ?s = "snd (transport_begin (DeviceWsInTransport ''ws://dev'' None None))"
  have s: "?s = \<lparr> isBusy = True, beginPromise = Some 0, host = ''ws://dev'', ws = Some 0,
       forceDisconnect = False, retries = 0, maxRetries = 5,
       reconnectTimeout = None, isReconnecting = False, authFrame = None,
       userShaToken = [], sha256Func = None,
       promises = [Pending], sockets = [(''ws://dev/rpc'', 0)], closed = [], timers = [],
       module_cnonce = None \<rparr>"
    by (simp add: DeviceWsInTransport_def transport_begin_def onBegin_def connect_def
        rpc_url_def DEFAULT_RECONNECT_RETRIES_def)
  have h: "\<not> forceDisconnect ?s \<and> \<not> isReconnecting ?s \<and>
      (retries ?s < maxRetries ?s \<or> maxRetries ?s = RECONNECT_RETRIES_INFINITE)"
    unfolding s by simp
  have "retries (ws_onclose 0 1006 ?s) = retries ?s + 1 \<and>
      timers (ws_onclose 0 1006 ?s) =
        timers ?s @ [(500 * max (retries (ws_onclose 0 1006 ?s)) 5, 0, Scheduled)]"
    using reconnect_delay_schedule [of ?s 0 1006 3] h by blast
  moreover have "reconnect_delay 3 = 2500"
    using reconnect_delay_schedule [of ?s 0 1006 3] by simp
  ultimately show ?thesis unfolding s by simp
qed

lemma close_then_fire:
  assumes "\<not> forceDisconnect s" "\<not> isReconnecting s"
    "retries s < maxRetries s \<or> maxRetries s = RECONNECT_RETRIES_INFINITE"
  shows "fire_pending (ws_onclose p c s) =
     s\<lparr> retries := retries s + 1, isReconnecting := False, forceDisconnect := False,
        reconnectTimeout := None,
        timers := timers s @ [(reconnect_delay (retries s + 1), p, Fired)],
        ws := Some (length (sockets s)),
        sockets := sockets s @ [(rpc_url (host s), p)] \<rparr>"
  by (simp add: onclose_retry [OF assms] fire_pending_def timer_fire_def connect_def)

lemma reconnect_round:
  assumes "\<not> forceDisconnect s" "\<not> isReconnecting s" "retries s < maxRetries s"
  shows "\<not> forceDisconnect (fire_pending (ws_onclose p c s))"
    "\<not> isReconnecting (fire_pending (ws_onclose p c s))"
    "retries (fire_pending (ws_onclose p c s)) = retries s + 1"
    "maxRetries (fire_pending (ws_onclose p c s)) = maxRetries s"
    "promises (fire_pending (ws_onclose p c s)) = promises s"
    "length (sockets (fire_pending (ws_onclose p c s))) = Suc (length (sockets s))"
    "reconnectTimeout (fire_pending (ws_onclose p c s)) = None"
  using assms by (simp_all add: close_then_fire)

text \<open>
  Claim C6. With \<^verbatim>\<open>maxRetries = 3\<close>, a pending start promise \<open>p\<close> and no open in
  between: after three unexpected closes (codes \<open>c1\<close>, \<open>c2\<close>, \<open>c3\<close>), each followed by
  the expiry of its reconnect timeout, the promise is still pending, the retry counter is
  3 and three more sockets exist; the fourth close (code \<open>c4\<close>) rejects the promise with
  the exhaustion error for 3 retries and the code \<open>c4\<close>, and schedules nothing. The
  \<^verbatim>\<open>onopen\<close> handler sets the retry counter to 0 in every state.
\<close>

theorem retries_exhausted:
  assumes "maxRetries s = 3" and "retries s = 0"
    and "\<not> forceDisconnect s" and "\<not> isReconnecting s"
    and "p < length (promises s)" and "promises s ! p = Pending"
  shows
    "promises (fire_pending (ws_onclose p c3 (fire_pending (ws_onclose p c2
        (fire_pending (ws_onclose p c1 s)))))) ! p = Pending \<and>
     retries (fire_pending (ws_onclose p c3 (fire_pending (ws_onclose p c2
        (fire_pending (ws_onclose p c1 s)))))) = 3 \<and>
     length (sockets (fire_pending (ws_onclose p c3 (fire_pending (ws_onclose p c2
        (fire_pending (ws_onclose p c1 s))))))) = length (sockets s) + 3 \<and>
     promises (ws_onclose p c4 (fire_pending (ws_onclose p c3 (fire_pending (ws_onclose p c2
        (fire_pending (ws_onclose p c1 s))))))) ! p = Rejected (WsDisconnected 3 c4) \<and>
     kind (WsDisconnected 3 c4) = ConnectionExhaustedError \<and>
     reconnectTimeout (ws_onclose p c4 (fire_pending (ws_onclose p c3 (fire_pending
        (ws_onclose p c2 (fire_pending (ws_onclose p c1 s))))))) = None \<and>
     retries (ws_onopen q t) = 0"
proof -
  define s1 where "s1 = fire_pending (ws_onclose p c1 s)"
  define s2 where "s2 = fire_pending (ws_onclose p c2 s1)"
  define s3 where "s3 = fire_pending (ws_onclose p c3 s2)"
  have r0: "retries s < maxRetries s" using assms by simp
  note f1 = reconnect_round [OF assms(3,4) r0, of p c1, folded s1_def]
  have r1: "retries s1 < maxRetries s1" using f1 assms by simp
  note f2 = reconnect_round [OF f1(1,2) r1, of p c2, folded s2_def]
  have r2: "retries s2 < maxRetries s2" using f1 f2 assms by simp
  note f3 = reconnect_round [OF f2(1,2) r2, of p c3, folded s3_def]
  have ret3: "retries s3 = 3" using f1 f2 f3 assms by simp
  have max3: "maxRetries s3 = 3" using f1 f2 f3 assms by simp
  have pr3: "promises s3 = promises s" using f1 f2 f3 by simp
  have so3: "length (sockets s3) = length (sockets s) + 3" using f1 f2 f3 by simp
  have ex: "ws_onclose p c4 s3 =
     s3\<lparr> promises := settle p (Rejected (WsDisconnected (retries s3) c4)) (promises s3) \<rparr>"
    using f3(1,2) ret3 max3
    by (intro onclose_exhausted) (simp_all add: RECONNECT_RETRIES_INFINITE_def)
  have a: "promises s3 ! p = Pending" using pr3 assms by simp
  have b: "promises (ws_onclose p c4 s3) ! p = Rejected (WsDisconnected 3 c4)"
    using assms by (simp add: ex ret3 pr3 settle_def)
  have c: "reconnectTimeout (ws_onclose p c4 s3) = None"
    using f3 by (simp add: ex)
  have d: "retries (ws_onopen q t) = 0"
    by (simp add: ws_onopen_def Let_def split: option.splits)
  show ?thesis
    using a ret3 so3 b c d unfolding s3_def s2_def s1_def by simp
qed

theorem retries_exhausted_witness:
  "promises (ws_onclose 0 1006 (fire_pending (ws_onclose 0 1006 (fire_pending (ws_onclose 0 1001
        (fire_pending (ws_onclose 0 1006
          (snd (transport_begin (DeviceWsInTransport ''ws://dev'' None (Some 3)))))))))))
     = [Rejected (WsDisconnected 3 1006)]"
proof -
  let ?s = "snd (transport_begin (DeviceWsInTransport ''ws://dev'' None (Some 3)))"
  have s: "?s = \<lparr> isBusy = True, beginPromise = Some 0, host = ''ws://dev'', ws = Some 0,
       forceDisconnect = False, retries = 0, maxRetries = 3,
       reconnectTimeout = None, isReconnecting = False, authFrame = None,
       userShaToken = [], sha256Func = None,
       promises = [Pending], sockets = [(''ws://dev/rpc'', 0)], closed = [], timers = [],
       module_cnonce = None \<rparr>"
    by (simp add: DeviceWsInTransport_def transport_begin_def onBegin_def connect_def
        rpc_url_def DEFAULT_RECONNECT_RETRIES_def)
  have h: "maxRetries ?s = 3" "retries ?s = 0" "\<not> forceDisconnect ?s" "\<not> isReconnecting ?s"
    "0 < length (promises ?s)" "promises ?s ! 0 = Pending"
    unfolding s by simp_all
  let ?s3 = "fire_pending (ws_onclose 0 1006 (fire_pending (ws_onclose 0 1001
        (fire_pending (ws_onclose 0 1006 ?s)))))"
  have "promises (ws_onclose 0 1006 ?s3) ! 0 = Rejected (WsDisconnected 3 1006)"
    using retries_exhausted [OF h, of 1006 1001 1006 1006 0 ?s] by blast
  moreover have "length (promises (ws_onclose 0 1006 ?s3)) = 1"
    unfolding s
    by (simp add: ws_onclose_def fire_pending_def timer_fire_def connect_def Let_def
        RECONNECT_RETRIES_INFINITE_def settle_def)
  ultimately show ?thesis
    by (cases "promises (ws_onclose 0 1006 ?s3)") simp_all
qed

section \<open>The stored start handle\<close>

lemma settle_length [simp]: "length (settle q v ps) = length ps"
  by (simp add: settle_def)

lemma settle_settled: "ps ! p \<noteq> Pending \<Longrightarrow> settle q v ps ! p = ps ! p"
  by (simp add: settle_def nth_list_update)

lemma onopen_fields:
  "beginPromise (ws_onopen q s) = beginPromise s"
  "isBusy (ws_onopen q s) = isBusy s"
  "promises (ws_onopen q s) = settle q Resolved (promises s)"
  by (simp_all add: ws_onopen_def Let_def split: option.splits)

lemma onclose_fields:
  "beginPromise (ws_onclose q c s) = beginPromise s"
  "isBusy (ws_onclose q c s) = isBusy s"
  "promises (ws_onclose q c s) = promises s \<or>
   promises (ws_onclose q c s) = settle q (Rejected (WsDisconnected (retries s) c)) (promises s)"
  by (simp_all add: ws_onclose_def Let_def)

lemma timer_fire_fields:
  "beginPromise (timer_fire t s) = beginPromise s"
  "isBusy (timer_fire t s) = isBusy s"
  "promises (timer_fire t s) = promises s"
  by (simp_all add: timer_fire_def connect_def)

lemma authenticate_fields:
  "beginPromise (snd (authenticate d pw s)) = beginPromise s"
  "isBusy (snd (authenticate d pw s)) = isBusy s"
  "promises (snd (authenticate d pw s)) = promises s"
  by (simp_all add: authenticate_def split: option.splits)

lemma regenerate_fields:
  "beginPromise (snd (regenerateAuthFrames now n s)) = beginPromise s"
  "isBusy (snd (regenerateAuthFrames now n s)) = isBusy s"
  "promises (snd (regenerateAuthFrames now n s)) = promises s"
  "authFrame (snd (regenerateAuthFrames now n s)) = authFrame s"
  "sha256Func (snd (regenerateAuthFrames now n s)) = sha256Func s"
  by (simp_all add: regenerateAuthFrames_def prepareAuthPartialFrame_def Let_def
      split: option.splits)

lemma attach_auth_fields:
  "beginPromise (snd (attach_auth now s)) = beginPromise s"
  "isBusy (snd (attach_auth now s)) = isBusy s"
  "promises (snd (attach_auth now s)) = promises s"
proof -
  have "beginPromise (snd (attach_auth now s)) = beginPromise s \<and>
        isBusy (snd (attach_auth now s)) = isBusy s \<and>
        promises (snd (attach_auth now s)) = promises s"
  proof (cases "authFrame s")
    case None
    then show ?thesis by (simp add: attach_auth_def)
  next
    case (Some af)
    let ?s0 = "s\<lparr> authFrame := Some (af\<lparr> nc := nc af + 1 \<rparr>) \<rparr>"
    obtain r s' where r: "regenerateAuthFrames now (nc af) ?s0 = (r, s')" by force
    from regenerate_fields(1-3) [of now "nc af" ?s0] r
    have "beginPromise s' = beginPromise s" "isBusy s' = isBusy s" "promises s' = promises s"
      by simp_all
    then show ?thesis using Some r by (cases r) (simp_all add: attach_auth_def Let_def)
  qed
  then show "beginPromise (snd (attach_auth now s)) = beginPromise s"
    "isBusy (snd (attach_auth now s)) = isBusy s"
    "promises (snd (attach_auth now s)) = promises s"
    by simp_all
qed

lemma rpcRequest_fields:
  "beginPromise (snd (rpcRequest now rt dc m ps os s)) = beginPromise s \<and>
   isBusy (snd (rpcRequest now rt dc m ps os s)) = isBusy s \<and>
   promises (snd (rpcRequest now rt dc m ps os s)) = promises s"
proof -
  obtain a s1 where a: "attach_auth now s = (a, s1)" by force
  from attach_auth_fields [of now s] a
  have f: "beginPromise s1 = beginPromise s" "isBusy s1 = isBusy s" "promises s1 = promises s"
    by simp_all
  show ?thesis
    unfolding rpcRequest_def a
    by (simp add: f Let_def split: sum.splits outcome.splits error.splits decoded.splits)
qed

lemma step_keeps_handle:
  "a \<noteq> End \<Longrightarrow> beginPromise s = Some p \<Longrightarrow> beginPromise (step a s) = Some p"
  by (cases a)
    (simp_all add: begin_stored onopen_fields onclose_fields timer_fire_fields
      authenticate_fields rpcRequest_fields)

lemma step_keeps_settled:
  assumes "p < length (promises s)" "promises s ! p \<noteq> Pending"
  shows "p < length (promises (step a s)) \<and> promises (step a s) ! p = promises s ! p"
proof (cases a)
  case Begin
  then show ?thesis using assms
    by (cases "beginPromise s")
      (simp_all add: transport_begin_def onBegin_def connect_def Let_def nth_append)
next
  case End
  then show ?thesis using assms
    by (simp add: transport_end_def onEnd_def Let_def nth_append split: option.splits)
next
  case (SocketClose k c)
  then show ?thesis
    using assms onclose_fields(3) [of "snd (sockets s ! k)" c s]
    by (auto simp add: settle_settled)
qed (use assms in \<open>simp_all add: onopen_fields timer_fire_fields authenticate_fields
      rpcRequest_fields settle_settled\<close>)

lemma run_keeps_handle:
  "End \<notin> set acts \<Longrightarrow> beginPromise s = Some p \<Longrightarrow> beginPromise (run acts s) = Some p"
proof (induction acts arbitrary: s)
  case Nil
  then show ?case by simp
next
  case (Cons a acts)
  from Cons.prems have "a \<noteq> End" "End \<notin> set acts" by auto
  with Cons.IH [of "step a s"] Cons.prems(2) show ?case
    by (simp add: step_keeps_handle)
qed

lemma run_keeps_settled:
  "p < length (promises s) \<Longrightarrow> promises s ! p \<noteq> Pending \<Longrightarrow>
   p < length (promises (run acts s)) \<and> promises (run acts s) ! p = promises s ! p"
proof (induction acts arbitrary: s)
  case Nil
  then show ?case by simp
next
  case (Cons a acts)
  from step_keeps_settled [OF Cons.prems, of a]
  have 1: "p < length (promises (step a s))" and 2: "promises (step a s) ! p = promises s ! p"
    by simp_all
  from 2 Cons.prems(2) have 3: "promises (step a s) ! p \<noteq> Pending" by simp
  from Cons.IH [OF 1 3] 2 show ?case by simp
qed

text \<open>The invariant \<open>lifecycle_ok\<close> holds in every state a transport reaches.\<close>

lemma lifecycle_ok_step: "lifecycle_ok s \<Longrightarrow> lifecycle_ok (step a s)"
proof (cases a)
  case Begin
  assume "lifecycle_ok s"
  with Begin show ?thesis
    by (cases "beginPromise s")
      (simp_all add: lifecycle_ok_def transport_begin_def onBegin_def connect_def Let_def)
next
  case End
  assume "lifecycle_ok s"
  with End show ?thesis
    by (cases "beginPromise s")
      (simp_all add: lifecycle_ok_def transport_end_def onEnd_def Let_def split: option.splits)
next
  case (SocketClose k c)
  assume "lifecycle_ok s"
  with SocketClose show ?thesis
    using onclose_fields(3) [of "snd (sockets s ! k)" c s]
    by (auto simp add: lifecycle_ok_def onclose_fields(1,2) split: option.splits)
qed (simp_all add: lifecycle_ok_def onopen_fields timer_fire_fields authenticate_fields
      rpcRequest_fields split: option.splits)

lemma lifecycle_ok_run:
  "lifecycle_ok (run acts (DeviceWsInTransport h f m))"
proof -
  have "lifecycle_ok s \<Longrightarrow> lifecycle_ok (run acts s)" for s
    by (induction acts arbitrary: s) (simp_all add: lifecycle_ok_step)
  moreover have "lifecycle_ok (DeviceWsInTransport h f m)"
    by (simp add: lifecycle_ok_def DeviceWsInTransport_def)
  ultimately show ?thesis by blast
qed

text \<open>
  Claim C10. With a stored start handle whose promise is rejected, \<^verbatim>\<open>begin\<close> returns
  that handle and the state it was given: no socket is created and no field changes. This
  stays so after any calls and events other than \<^verbatim>\<open>end\<close>, and the promise stays
  rejected. \<^verbatim>\<open>end\<close> discards the handle; the next \<^verbatim>\<open>begin\<close> then returns a new,
  pending promise and creates one socket.
\<close>

theorem begin_after_rejection:
  assumes "beginPromise s = Some p" and "isBusy s"
    and "p < length (promises s)" and "promises s ! p = Rejected e"
  shows
    "transport_begin s = (Inr p, s) \<and>
     (\<forall>acts. End \<notin> set acts \<longrightarrow>
        transport_begin (run acts s) = (Inr p, run acts s) \<and>
        promises (run acts s) ! p = Rejected e) \<and>
     beginPromise (snd (transport_end s)) = None \<and>
     fst (transport_begin (snd (transport_end s))) = Inr (Suc (length (promises s))) \<and>
     Suc (length (promises s)) \<noteq> p \<and>
     promises (snd (transport_begin (snd (transport_end s)))) ! Suc (length (promises s)) = Pending \<and>
     length (sockets (snd (transport_begin (snd (transport_end s))))) = Suc (length (sockets s))"
proof (intro conjI allI impI)
  show "transport_begin s = (Inr p, s)" using assms(1) by (rule begin_stored)
next
  fix acts :: "('a, 'b, 'c) action list"
  assume n: "End \<notin> set acts"
  show "transport_begin (run acts s) = (Inr p, run acts s)"
    using run_keeps_handle [OF n assms(1)] by (rule begin_stored)
  show "promises (run acts s) ! p = Rejected e"
    using run_keeps_settled [OF assms(3), of acts] assms(4) by simp
next
  note e = end_busy [OF assms(2)]
  let ?t = "snd (transport_end s)"
  show n: "beginPromise ?t = None" using e by simp
  have i: "\<not> isBusy ?t" using e by simp
  have l: "length (promises ?t) = Suc (length (promises s))" using e by simp
  note b = begin_fresh [OF n i, unfolded l]
  show "fst (transport_begin ?t) = Inr (Suc (length (promises s)))" by (simp add: b)
  show "Suc (length (promises s)) \<noteq> p" using assms(3) by simp
  show "promises (snd (transport_begin ?t)) ! Suc (length (promises s)) = Pending"
    by (simp add: b nth_append l)
  show "length (sockets (snd (transport_begin ?t))) = Suc (length (sockets s))"
    using e by (simp add: b)
qed


theorem begin_after_rejection_witness:
  "promises (run [Begin, SocketClose 0 1006, TimerFire 0, SocketClose 1 1006 :: (unit, unit, unit) action]
      (DeviceWsInTransport ''ws://dev'' None (Some 1))) ! 0 = Rejected (WsDisconnected 1 1006) \<and>
   fst (transport_begin
     (run [Begin, SocketClose 0 1006, TimerFire 0, SocketClose 1 1006 :: (unit, unit, unit) action]
        (DeviceWsInTransport ''ws://dev'' None (Some 1)))) = Inr 0 \<and>
   fst (transport_begin (run [SocketOpen 1, Begin, SocketClose 1 1001 :: (unit, unit, unit) action]
     (run [Begin, SocketClose 0 1006, TimerFire 0, SocketClose 1 1006 :: (unit, unit, unit) action]
        (DeviceWsInTransport ''ws://dev'' None (Some 1))))) = Inr 0 \<and>
   fst (transport_begin (snd (transport_end
     (run [Begin, SocketClose 0 1006, TimerFire 0, SocketClose 1 1006 :: (unit, unit, unit) action]
        (DeviceWsInTransport ''ws://dev'' None (Some 1)))))) = Inr 2"
proof -
  let ?s = "run [Begin, SocketClose 0 1006, TimerFire 0, SocketClose 1 1006 :: (unit, unit, unit) action]
      (DeviceWsInTransport ''ws://dev'' None (Some 1))"
  let ?acts = "[SocketOpen 1, Begin, SocketClose 1 1001 :: (unit, unit, unit) action]"
  have s: "?s = \<lparr> isBusy = True, beginPromise = Some 0, host = ''ws://dev'', ws = Some 1,
       forceDisconnect = False, retries = 1, maxRetries = 1,
       reconnectTimeout = None, isReconnecting = False, authFrame = None,
       userShaToken = [], sha256Func = None,
       promises = [Rejected (WsDisconnected 1 1006)],
       sockets = [(''ws://dev/rpc'', 0), (''ws://dev/rpc'', 0)], closed = [],
       timers = [(2500, 0, Fired)], module_cnonce = None \<rparr>"
    by (simp add: DeviceWsInTransport_def transport_begin_def onBegin_def connect_def
        rpc_url_def ws_onclose_def timer_fire_def settle_def reconnect_delay_def Let_def
        WS_RETRY_BASE_DELAY_def DEFAULT_RECONNECT_RETRIES_def RECONNECT_RETRIES_INFINITE_def)
  have h: "beginPromise ?s = Some 0" "isBusy ?s" "0 < length (promises ?s)"
    "promises ?s ! 0 = Rejected (WsDisconnected 1 1006)"
    unfolding s by simp_all
  have n: "End \<notin> set ?acts" by simp
  note t = begin_after_rejection [OF h]
  from t have "transport_begin ?s = (Inr 0, ?s)" by blast
  moreover from t n have "transport_begin (run ?acts ?s) = (Inr 0, run ?acts ?s)" by blast
  moreover from t have "fst (transport_begin (snd (transport_end ?s)))
      = Inr (Suc (length (promises ?s)))" by blast
  moreover have "length (promises ?s) = 1" unfolding s by simp
  ultimately show ?thesis using h(4) by simp
qed

section \<open>Deriving the user token\<close>

lemma authenticate_cases:
  "sha256Func s = None \<Longrightarrow> authenticate d pw s = (Rejects NoSha256Function, s)"
  "sha256Func s = Some h \<Longrightarrow> authFrame s = None \<Longrightarrow>
     authenticate d pw s = (Rejects NoChallengeFrame, s)"
  "sha256Func s = Some h \<Longrightarrow> authFrame s = Some af \<Longrightarrow>
     authenticate d pw s =
       (Resolves (), s\<lparr> userShaToken := h (''admin'' @ '':'' @ d @ '':'' @ pw) \<rparr>)"
  by (simp_all add: authenticate_def)

text \<open>
  Claim C8, as stated, at a concrete transport: a hash function is configured and no
  challenge has been captured, and \<^verbatim>\<open>authenticate\<close> still fails, with
  \<^verbatim>\<open>'No challenge frame available'\<close>.
\<close>

theorem authenticate_counterexample:
  "sha256Func (DeviceWsInTransport ''ws://dev'' (Some rev) None) = Some rev \<and>
   fst (authenticate ''shelly-1'' ''secret'' (DeviceWsInTransport ''ws://dev'' (Some rev) None))
     = Rejects NoChallengeFrame"
  by (simp add: authenticate_def DeviceWsInTransport_def)

text \<open>
  Claim C8, amended. Without a hash function \<^verbatim>\<open>authenticate\<close> rejects with the
  missing-hash-function error; with a hash function and no captured challenge it rejects
  with the missing-challenge error; in both cases nothing is stored. With both it resolves
  and stores the hash of \<^verbatim>\<open>'admin' + ':' + id + ':' + password\<close> as the user token.
\<close>

theorem authenticate_token:
  "(sha256Func s = None \<longrightarrow>
      authenticate d pw s = (Rejects NoSha256Function, s) \<and>
      kind NoSha256Function = MissingHashFunctionError) \<and>
   (sha256Func s = Some h \<and> authFrame s = None \<longrightarrow>
      authenticate d pw s = (Rejects NoChallengeFrame, s) \<and>
      kind NoChallengeFrame = MissingChallengeError) \<and>
   (sha256Func s = Some h \<and> authFrame s = Some af \<longrightarrow>
      authenticate d pw s =
        (Resolves (), s\<lparr> userShaToken := h (''admin'' @ '':'' @ d @ '':'' @ pw) \<rparr>))"
  by (simp add: authenticate_cases)

theorem authenticate_token_witness:
  "fst (authenticate ''shelly-1'' ''secret'' (DeviceWsInTransport ''ws://dev'' None None))
     = Rejects NoSha256Function \<and>
   fst (authenticate ''shelly-1'' ''secret'' (DeviceWsInTransport ''ws://dev'' (Some rev) None))
     = Rejects NoChallengeFrame \<and>
   userShaToken (snd (authenticate ''shelly-1'' ''secret''
     ((DeviceWsInTransport ''ws://dev'' (Some rev) None)
        \<lparr> authFrame := Some \<lparr> nonce = JNum 17, realm = JStr ''shelly-1'', nc = 1 \<rparr> \<rparr>)))
     = ''terces:1-yllehs:nimda''"
proof -
  let ?a = "DeviceWsInTransport ''ws://dev'' None None"
  let ?b = "DeviceWsInTransport ''ws://dev'' (Some rev) None"
  let ?af = "\<lparr> nonce = JNum 17, realm = JStr ''shelly-1'', nc = 1 \<rparr>"
  let ?c = "?b\<lparr> authFrame := Some ?af \<rparr>"
  have a: "sha256Func ?a = None" by (simp add: DeviceWsInTransport_def)
  have b: "sha256Func ?b = Some rev \<and> authFrame ?b = None" by (simp add: DeviceWsInTransport_def)
  have c: "sha256Func ?c = Some rev \<and> authFrame ?c = Some ?af"
    by (simp add: DeviceWsInTransport_def)
  from authenticate_token [of ?a "''shelly-1''" "''secret''"] a
  have "authenticate ''shelly-1'' ''secret'' ?a = (Rejects NoSha256Function, ?a)" by blast
  moreover from authenticate_token [of ?b "''shelly-1''" "''secret''" rev] b
  have "authenticate ''shelly-1'' ''secret'' ?b = (Rejects NoChallengeFrame, ?b)" by blast
  moreover from authenticate_token [of ?c "''shelly-1''" "''secret''" rev ?af] c
  have "authenticate ''shelly-1'' ''secret'' ?c =
        (Resolves (), ?c\<lparr> userShaToken := rev (''admin'' @ '':'' @ ''shelly-1'' @ '':'' @ ''secret'') \<rparr>)"
    by blast
  ultimately show ?thesis by simp
qed

section \<open>Regenerating the auth block\<close>

lemma regenerate_cases:
  "sha256Func s = None \<Longrightarrow> regenerateAuthFrames now n s = (Inl NoSha256Function, s)"
  "sha256Func s = Some h \<Longrightarrow> authFrame s = None \<Longrightarrow>
     regenerateAuthFrames now n s = (Inl NoChallengeFrame, s)"
  "sha256Func s = Some h \<Longrightarrow> authFrame s = Some af \<Longrightarrow>
     regenerateAuthFrames now n s =
       (Inr \<lparr> nonce = nonce af, realm = realm af, nc = n,
              cnonce = client_nonce now (module_cnonce s),
              response = h (join '':'' [userShaToken s, String (nonce af), str_of_int n,
                 str_of_int (client_nonce now (module_cnonce s)), ''auth'', h ''dummy_method:dummy_uri'']),
              username = ''admin'', algorithm = ''SHA-256'' \<rparr>,
        s\<lparr> module_cnonce := Some (client_nonce now (module_cnonce s)) \<rparr>)"
  by (simp_all add: regenerateAuthFrames_def prepareAuthPartialFrame_def client_nonce_def Let_def)

text \<open>
  Claim C5. Starting from a transport with a hash function and a captured challenge:
  without the hash function \<^verbatim>\<open>_regenerateAuthFrames\<close> throws the missing-hash-function
  error (it checks the hash function first, so this holds whether a challenge is stored or
  not); with the hash function and no challenge it throws the missing-challenge error. With
  both, the block has the
  stored \<^verbatim>\<open>nonce\<close> and \<^verbatim>\<open>realm\<close>, the count given by the caller, the client nonce,
  \<^verbatim>\<open>username: 'admin'\<close>, \<^verbatim>\<open>algorithm: 'SHA-256'\<close>, and as \<^verbatim>\<open>response\<close> the hash of
  the user token, nonce, count, client nonce, \<^verbatim>\<open>'auth'\<close> and the hash of
  \<^verbatim>\<open>'dummy_method:dummy_uri'\<close>, joined by colons in this order.
\<close>

theorem regenerate_auth_block:
  "(sha256Func s = None \<longrightarrow>
      regenerateAuthFrames now n s = (Inl NoSha256Function, s) \<and>
      kind NoSha256Function = MissingHashFunctionError) \<and>
   (sha256Func s = Some h \<and> authFrame s = None \<longrightarrow>
      regenerateAuthFrames now n s = (Inl NoChallengeFrame, s) \<and>
      kind NoChallengeFrame = MissingChallengeError) \<and>
   (sha256Func s = Some h \<and> authFrame s = Some af \<longrightarrow>
      fst (regenerateAuthFrames now n s) =
        Inr \<lparr> nonce = nonce af, realm = realm af, nc = n,
              cnonce = client_nonce now (module_cnonce s),
              response =
                h (userShaToken s @ '':'' @ String (nonce af) @ '':'' @ str_of_int n @ '':'' @
                   str_of_int (client_nonce now (module_cnonce s)) @ '':'' @ ''auth'' @ '':'' @
                   h ''dummy_method:dummy_uri''),
              username = ''admin'', algorithm = ''SHA-256'' \<rparr>)"
  by (simp add: regenerate_cases)


theorem regenerate_auth_block_witness:
  "fst (regenerateAuthFrames 1234 1
     ((DeviceWsInTransport ''ws://dev'' (Some (\<lambda>x. ''H('' @ x @ '')'')) None)
        \<lparr> authFrame := Some \<lparr> nonce = JNum 1700, realm = JStr ''shelly-1'', nc = 5 \<rparr>,
          userShaToken := ''tok'' \<rparr>))
     = Inr \<lparr> nonce = JNum 1700, realm = JStr ''shelly-1'', nc = 1, cnonce = 1234,
             response = ''H(tok:1700:1:1234:auth:H(dummy_method:dummy_uri))'',
             username = ''admin'', algorithm = ''SHA-256'' \<rparr> \<and>
   fst (regenerateAuthFrames 1234 1 (DeviceWsInTransport ''ws://dev'' (Some rev) None))
     = Inl NoChallengeFrame \<and>
   fst (regenerateAuthFrames 1234 1 (DeviceWsInTransport ''ws://dev'' None None))
     = Inl NoSha256Function"
proof -
  let ?h = "\<lambda>x. ''H('' @ x @ '')''"
  let ?af = "\<lparr> nonce = JNum 1700, realm = JStr ''shelly-1'', nc = 5 \<rparr>"
  let ?a = "DeviceWsInTransport ''ws://dev'' None None"
  let ?b = "DeviceWsInTransport ''ws://dev'' (Some rev) None"
  let ?c = "(DeviceWsInTransport ''ws://dev'' (Some ?h) None)
        \<lparr> authFrame := Some ?af, userShaToken := ''tok'' \<rparr>"
  have a: "sha256Func ?a = None" by (simp add: DeviceWsInTransport_def)
  have b: "sha256Func ?b = Some rev \<and> authFrame ?b = None" by (simp add: DeviceWsInTransport_def)
  have c: "sha256Func ?c = Some ?h \<and> authFrame ?c = Some ?af"
    by (simp add: DeviceWsInTransport_def)
  have "regenerateAuthFrames 1234 1 ?a = (Inl NoSha256Function, ?a)"
    by (rule regenerate_auth_block [of ?a 1234 1, THEN conjunct1, THEN mp, OF a, THEN conjunct1])
  moreover
  have "regenerateAuthFrames 1234 1 ?b = (Inl NoChallengeFrame, ?b)"
    by (rule regenerate_auth_block [of ?b 1234 1 rev, THEN conjunct2, THEN conjunct1, THEN mp,
          OF b, THEN conjunct1])
  moreover
  have "fst (regenerateAuthFrames 1234 1 ?c) =
        Inr \<lparr> nonce = nonce ?af, realm = realm ?af, nc = 1,
              cnonce = client_nonce 1234 (module_cnonce ?c),
              response =
                ?h (userShaToken ?c @ '':'' @ String (nonce ?af) @ '':'' @ str_of_int 1 @ '':'' @
                   str_of_int (client_nonce 1234 (module_cnonce ?c)) @ '':'' @ ''auth'' @ '':'' @
                   ?h ''dummy_method:dummy_uri''),
              username = ''admin'', algorithm = ''SHA-256'' \<rparr>"
    by (rule regenerate_auth_block [of ?c 1234 1 ?h ?af, THEN conjunct2, THEN conjunct2, THEN mp,
          OF c])
  moreover have "str_of_int 1 = ''1''" "str_of_int 1234 = ''1234''" "str_of_int 1700 = ''1700''"
    by (simp_all add: str_of_int_def digits.simps)
  moreover have "client_nonce 1234 None = 1234" by (simp add: client_nonce_def)
  ultimately show ?thesis
    by (simp add: DeviceWsInTransport_def)
qed

section \<open>Intercepted requests\<close>

lemma rpcRequest_not_sent:
  "attach_auth now s = (Inl e, s1) \<Longrightarrow> rpcRequest now rt dc m ps os s = ((Rejects e, None), s1)"
  by (simp add: rpcRequest_def)

lemma rpcRequest_sent:
  assumes "attach_auth now s = (Inr au, s1)"
  shows "snd (fst (rpcRequest now rt dc m ps os s)) = Some \<lparr> auth = au, caller_options = os \<rparr>"
proof (cases "rt m ps \<lparr> auth = au, caller_options = os \<rparr>")
  case (Rejects e)
  then show ?thesis using assms
    by (cases e) (simp_all add: rpcRequest_def Let_def split: decoded.splits)
qed (simp_all add: rpcRequest_def assms)

lemma rpcRequest_returns:
  assumes "attach_auth now s = (Inr au, s1)"
    and "fst (fst (rpcRequest now rt dc m ps os s)) \<noteq> NeverSettles"
  shows "snd (rpcRequest now rt dc m ps os s) = s1"
proof (cases "rt m ps \<lparr> auth = au, caller_options = os \<rparr>")
  case (Rejects e)
  then show ?thesis using assms
    by (cases e) (simp_all add: rpcRequest_def Let_def split: decoded.splits if_splits)
qed (use assms in \<open>simp_all add: rpcRequest_def\<close>)

lemma rpcRequest_challenge:
  "attach_auth now s = (Inr au, s1) \<Longrightarrow>
   rt m ps \<lparr> auth = au, caller_options = os \<rparr> = Rejects (RpcError 401 msg) \<Longrightarrow>
   dc msg = AuthResponse r \<Longrightarrow>
   rpcRequest now rt dc m ps os s =
     ((NeverSettles, Some \<lparr> auth = au, caller_options = os \<rparr>), s1\<lparr> authFrame := Some r \<rparr>)"
  by (simp add: rpcRequest_def Let_def)

text \<open>
  Claim C3. When the inherited \<^verbatim>\<open>rpcRequest\<close> was called (with the options \<open>opts\<close>)
  and failed with a 401 error whose message decodes into a challenge \<open>r\<close>, the caller's
  promise never settles, and the stored challenge is \<open>r\<close>, field by field, whatever was
  stored before.
\<close>

theorem challenge_capture:
  assumes "snd (fst (rpcRequest now rt dc m ps os s)) = Some opts"
    and "rt m ps opts = Rejects (RpcError 401 msg)"
    and "dc msg = AuthResponse r"
  shows "fst (fst (rpcRequest now rt dc m ps os s)) = NeverSettles \<and>
    authFrame (snd (rpcRequest now rt dc m ps os s)) = Some r \<and>
    map_option nonce (authFrame (snd (rpcRequest now rt dc m ps os s))) = Some (nonce r) \<and>
    map_option realm (authFrame (snd (rpcRequest now rt dc m ps os s))) = Some (realm r) \<and>
    map_option nc (authFrame (snd (rpcRequest now rt dc m ps os s))) = Some (nc r)"
proof -
  obtain a s1 where a: "attach_auth now s = (a, s1)" by force
  show ?thesis
  proof (cases a)
    case (Inl e)
    with a assms(1) show ?thesis by (simp add: rpcRequest_not_sent)
  next
    case (Inr au)
    with a have at: "attach_auth now s = (Inr au, s1)" by simp
    from rpcRequest_sent [OF at, of rt dc m ps os] assms(1)
    have o: "opts = \<lparr> auth = au, caller_options = os \<rparr>" by simp
    from assms(2) o have "rt m ps \<lparr> auth = au, caller_options = os \<rparr> = Rejects (RpcError 401 msg)"
      by simp
    from rpcRequest_challenge [of now s au s1 rt m ps os msg dc r, OF at this assms(3)]
    show ?thesis by simp
  qed
qed

theorem challenge_capture_witness:
  "fst (rpcRequest 1000 (\<lambda>m p opts. Rejects (RpcError 401 ''challenge'') :: unit outcome)
          (\<lambda>msg. AuthResponse \<lparr> nonce = JNum 1700, realm = JStr ''shelly-1'', nc = 1 \<rparr>)
          ''Shelly.GetStatus'' () (None :: unit option)
          (DeviceWsInTransport ''ws://dev'' None None))
     = (NeverSettles, Some \<lparr> auth = None, caller_options = None \<rparr>) \<and>
   authFrame (snd (rpcRequest 1000 (\<lambda>m p opts. Rejects (RpcError 401 ''challenge'') :: unit outcome)
          (\<lambda>msg. AuthResponse \<lparr> nonce = JNum 1700, realm = JStr ''shelly-1'', nc = 1 \<rparr>)
          ''Shelly.GetStatus'' () (None :: unit option)
          (DeviceWsInTransport ''ws://dev'' None None)))
     = Some \<lparr> nonce = JNum 1700, realm = JStr ''shelly-1'', nc = 1 \<rparr>"
proof -
  let ?rt = "\<lambda>(m :: string) (p :: unit) (opts :: unit rpc_options).
      Rejects (RpcError 401 ''challenge'') :: unit outcome"
  let ?r = "\<lparr> nonce = JNum 1700, realm = JStr ''shelly-1'', nc = 1 \<rparr>"
  let ?dc = "\<lambda>msg :: string. AuthResponse ?r"
  let ?s = "DeviceWsInTransport ''ws://dev'' None None"
  let ?opts = "\<lparr> auth = None, caller_options = None :: unit option \<rparr>"
  have sent: "snd (fst (rpcRequest 1000 ?rt ?dc ''Shelly.GetStatus'' () None ?s)) = Some ?opts"
    by (simp add: rpcRequest_def attach_auth_def DeviceWsInTransport_def)
  have f: "?rt ''Shelly.GetStatus'' () ?opts = Rejects (RpcError 401 ''challenge'')" by simp
  have d: "?dc ''challenge'' = AuthResponse ?r" by simp
  from challenge_capture [of 1000 ?rt ?dc "''Shelly.GetStatus''" "()" None ?s ?opts "''challenge''" ?r,
      OF sent f d] sent
  show ?thesis by (simp add: prod_eq_iff)
qed

lemma attach_auth_no_hash:
  "authFrame s = Some af \<Longrightarrow> sha256Func s = None \<Longrightarrow>
   attach_auth now s = (Inl NoSha256Function, s\<lparr> authFrame := Some (af\<lparr> nc := nc af + 1 \<rparr>) \<rparr>)"
  by (simp add: attach_auth_def regenerateAuthFrames_def Let_def)

lemma attach_auth_hash:
  "authFrame s = Some af \<Longrightarrow> sha256Func s = Some h \<Longrightarrow>
   \<exists>blk s1. attach_auth now s = (Inr (Some blk), s1) \<and> nc blk = nc af \<and>
     nonce blk = nonce af \<and> realm blk = realm af \<and>
     authFrame s1 = Some (af\<lparr> nc := nc af + 1 \<rparr>)"
  by (simp add: attach_auth_def regenerateAuthFrames_def prepareAuthPartialFrame_def Let_def)

text \<open>
  Claim C4. With a challenge \<open>af\<close> on file: whenever the call settles (resolved or
  rejected), the stored challenge is \<open>af\<close> with its count incremented by one; the options
  handed to the inherited \<^verbatim>\<open>rpcRequest\<close> carry an auth block whose count is the one
  stored before; with a hash function the inherited \<^verbatim>\<open>rpcRequest\<close> is always called,
  without one the call rejects before anything is sent.
\<close>

theorem nonce_count_increment:
  assumes "authFrame s = Some af"
  shows
    "(fst (fst (rpcRequest now rt dc m ps os s)) \<noteq> NeverSettles \<longrightarrow>
        authFrame (snd (rpcRequest now rt dc m ps os s)) = Some (af\<lparr> nc := nc af + 1 \<rparr>)) \<and>
     (\<forall>opts. snd (fst (rpcRequest now rt dc m ps os s)) = Some opts \<longrightarrow>
        map_option nc (auth opts) = Some (nc af)) \<and>
     (sha256Func s \<noteq> None \<longrightarrow> snd (fst (rpcRequest now rt dc m ps os s)) \<noteq> None) \<and>
     (sha256Func s = None \<longrightarrow>
        fst (rpcRequest now rt dc m ps os s) = (Rejects NoSha256Function, None))"
proof (cases "sha256Func s")
  case None
  note n = rpcRequest_not_sent [OF attach_auth_no_hash [OF assms None]]
  show ?thesis by (simp add: n None)
next
  case (Some h)
  from attach_auth_hash [OF assms Some, of now] obtain blk s1 where
    at: "attach_auth now s = (Inr (Some blk), s1)" and blk: "nc blk = nc af"
    and s1: "authFrame s1 = Some (af\<lparr> nc := nc af + 1 \<rparr>)"
    by blast
  note sent = rpcRequest_sent [OF at, of rt dc m ps os]
  have "fst (fst (rpcRequest now rt dc m ps os s)) \<noteq> NeverSettles \<Longrightarrow>
        authFrame (snd (rpcRequest now rt dc m ps os s)) = Some (af\<lparr> nc := nc af + 1 \<rparr>)"
    using rpcRequest_returns [OF at, of rt dc m ps os] s1 by simp
  moreover have "\<And>opts. snd (fst (rpcRequest now rt dc m ps os s)) = Some opts \<Longrightarrow>
        map_option nc (auth opts) = Some (nc af)"
    using sent blk by auto
  ultimately show ?thesis using sent Some by simp
qed


theorem nonce_count_increment_witness:
  "fst (fst (rpcRequest 1234 (\<lambda>m p opts. Resolves () :: unit outcome) (\<lambda>msg. Unparsable)
          ''Shelly.GetStatus'' () (None :: unit option)
          ((DeviceWsInTransport ''ws://dev'' (Some rev) None)
             \<lparr> authFrame := Some \<lparr> nonce = JNum 1700, realm = JStr ''shelly-1'', nc = 5 \<rparr> \<rparr>)))
     = Resolves () \<and>
   authFrame (snd (rpcRequest 1234 (\<lambda>m p opts. Resolves () :: unit outcome) (\<lambda>msg. Unparsable)
          ''Shelly.GetStatus'' () (None :: unit option)
          ((DeviceWsInTransport ''ws://dev'' (Some rev) None)
             \<lparr> authFrame := Some \<lparr> nonce = JNum 1700, realm = JStr ''shelly-1'', nc = 5 \<rparr> \<rparr>)))
     = Some \<lparr> nonce = JNum 1700, realm = JStr ''shelly-1'', nc = 6 \<rparr> \<and>
   (\<exists>opts. snd (fst (rpcRequest 1234 (\<lambda>m p opts. Resolves () :: unit outcome) (\<lambda>msg. Unparsable)
          ''Shelly.GetStatus'' () (None :: unit option)
          ((DeviceWsInTransport ''ws://dev'' (Some rev) None)
             \<lparr> authFrame := Some \<lparr> nonce = JNum 1700, realm = JStr ''shelly-1'', nc = 5 \<rparr> \<rparr>)))
        = Some opts \<and> map_option nc (auth opts) = Some 5)"
proof -
  let ?rt = "\<lambda>(m :: string) (p :: unit) (opts :: unit rpc_options). Resolves () :: unit outcome"
  let ?dc = "\<lambda>msg :: string. Unparsable"
  let ?af = "\<lparr> nonce = JNum 1700, realm = JStr ''shelly-1'', nc = 5 \<rparr>"
  let ?s = "(DeviceWsInTransport ''ws://dev'' (Some rev) None)\<lparr> authFrame := Some ?af \<rparr>"
  let ?q = "rpcRequest 1234 ?rt ?dc ''Shelly.GetStatus'' () None ?s"
  have a: "authFrame ?s = Some ?af" by (simp add: DeviceWsInTransport_def)
  have h: "sha256Func ?s \<noteq> None" by (simp add: DeviceWsInTransport_def)
  have r: "fst (fst ?q) = Resolves ()"
    by (simp add: rpcRequest_def attach_auth_def regenerateAuthFrames_def
        prepareAuthPartialFrame_def DeviceWsInTransport_def Let_def)
  note t = nonce_count_increment [OF a, of 1234 ?rt ?dc "''Shelly.GetStatus''" "()" None]
  from t r have 1: "authFrame (snd ?q) = Some (?af\<lparr> nc := nc ?af + 1 \<rparr>)" by simp
  from t h obtain opts where o: "snd (fst ?q) = Some opts" by blast
  with t have 2: "map_option nc (auth opts) = Some (nc ?af)" by blast
  from o 2 have 3: "\<exists>opts. snd (fst ?q) = Some opts \<and> map_option nc (auth opts) = Some 5"
    by simp
  from r 1 3 show ?thesis by simp
qed

end
